theory Spec2Isabelle
  imports Main "HOL-Library.Sublist"
begin

section \<open>InsuranceLens frontend: values, strings and JSON\<close>

text \<open>
  The sources are the TypeScript frontend of InsuranceLens: the type declarations
  (\<^verbatim>\<open>types/index.ts\<close>), the fetch helpers (\<^verbatim>\<open>utils/api.ts\<close>), the upload
  component (\<^verbatim>\<open>FileUpload\<close>), the page (\<^verbatim>\<open>Home\<close>) and the tabbed view
  (\<^verbatim>\<open>PolicyTabs\<close>).

  A JavaScript string is modelled as a \<^typ>\<open>string\<close>, one \<^typ>\<open>char\<close> per code unit
  below 256; every literal of the sources lies in that range (the umlauts are written
  by their code, \<open>CHR 0xE4\<close> and so on). A JavaScript number is a value of a type
  parameter \<open>'n\<close>: the functions below only ask of a number whether it is zero
  (truthiness) and how it prints (a parameter \<open>shw\<close>, JavaScript's number-to-string
  conversion).
\<close>

fun show_nat :: "nat \<Rightarrow> string" where
  "show_nat n =
     (if n < 10 then [''0123456789'' ! n]
      else show_nat (n div 10) @ [''0123456789'' ! (n mod 10)])"

declare show_nat.simps [simp del]

text \<open>\<^verbatim>\<open>xs.join(sep)\<close> on a list of strings.\<close>

fun join :: "string \<Rightarrow> string list \<Rightarrow> string" where
  "join sep [] = []"
| "join sep [x] = x"
| "join sep (x # y # ys) = x @ sep @ join sep (y # ys)"

text \<open>\<^verbatim>\<open>hay.includes(needle)\<close>: the needle occurs as a contiguous run of code units.\<close>

definition str_includes :: "string \<Rightarrow> string \<Rightarrow> bool" where
  "str_includes hay needle = sublist needle hay"

text \<open>
  \<^verbatim>\<open>s.trim()\<close> removes white space and line terminators from both ends. Below 256
  these are tab, line feed, vertical tab, form feed, carriage return, space and the
  no-break space.
\<close>

definition is_js_space :: "char \<Rightarrow> bool" where
  "is_js_space c = (c \<in> set [CHR 0x09, CHR 0x0A, CHR 0x0B, CHR 0x0C, CHR 0x0D, CHR 0x20, CHR 0xA0])"

definition trim :: "string \<Rightarrow> string" where
  "trim s = rev (dropWhile is_js_space (rev (dropWhile is_js_space s)))"

text \<open>
  What \<^verbatim>\<open>JSON.parse\<close> and \<^verbatim>\<open>response.json()\<close> produce. An object is the list of
  its members in the order of the text.
\<close>

datatype 'n json =
    JNull
  | JBool bool
  | JNumber 'n
  | JString string
  | JArray "'n json list"
  | JObject "(string \<times> 'n json) list"

text \<open>
  The own property \<open>k\<close> of a parsed object: where the text repeats a key, the last
  member wins.
\<close>

definition own_property :: "(string \<times> 'n json) list \<Rightarrow> string \<Rightarrow> 'n json option" where
  "own_property kvs k = map_of (rev kvs) k"

text \<open>
  \<^verbatim>\<open>String(v)\<close>, which is also the conversion the \<^verbatim>\<open>Error\<close> constructor applies to
  its message; \<open>None\<close> is the \<^verbatim>\<open>TypeError\<close> it can throw. An array prints its
  elements separated by commas, with \<^verbatim>\<open>null\<close> elements empty, and throws where an
  element does. An object prints as \<^verbatim>\<open>[object Object]\<close> through the inherited
  \<^verbatim>\<open>toString\<close>; with an own member named \<^verbatim>\<open>toString\<close> the conversion throws:
  a parsed member is never callable, and the \<^verbatim>\<open>valueOf\<close> tried next gives no
  primitive value either.
\<close>

fun js_String :: "('n \<Rightarrow> string) \<Rightarrow> 'n json \<Rightarrow> string option" where
  "js_String shw JNull = Some ''null''"
| "js_String shw (JBool b) = Some (if b then ''true'' else ''false'')"
| "js_String shw (JNumber n) = Some (shw n)"
| "js_String shw (JString s) = Some s"
| "js_String shw (JArray xs) =
     map_option (join '','')
       (those (map (\<lambda>x. if x = JNull then Some [] else js_String shw x) xs))"
| "js_String shw (JObject kvs) =
     (if own_property kvs ''toString'' = None then Some ''[object Object]'' else None)"

text \<open>The values on which the conversion does not throw.\<close>

fun printable :: "'n json \<Rightarrow> bool" where
  "printable (JArray xs) = list_all printable xs"
| "printable (JObject kvs) = (own_property kvs ''toString'' = None)"
| "printable v = True"

text \<open>
  Truthiness: \<^verbatim>\<open>null\<close>, \<^verbatim>\<open>false\<close>, zero and the empty string are falsy. The
  zero of the number type stands for the falsy numbers (\<^verbatim>\<open>0\<close> and \<^verbatim>\<open>-0\<close>; parsing
  JSON gives no \<^verbatim>\<open>NaN\<close>).
\<close>

fun truthy :: "('n::zero) json \<Rightarrow> bool" where
  "truthy JNull = False"
| "truthy (JBool b) = b"
| "truthy (JNumber n) = (n \<noteq> 0)"
| "truthy (JString s) = (s \<noteq> [])"
| "truthy (JArray xs) = True"
| "truthy (JObject kvs) = True"

section \<open>The fetch helper (utils/api.ts)\<close>

record 'n request =
  url :: string
  http_method :: string
  headers :: "(string \<times> string) list"
  body :: "'n json option"

text \<open>
  \<^verbatim>\<open>RequestInit\<close>, as far as the callers use it: the method, the headers and the
  value whose JSON text is the body.
\<close>

record 'n request_init =
  init_method :: "string option"
  init_headers :: "(string \<times> string) list option"
  init_body :: "'n json option"

definition no_options :: "'n request_init" where
  "no_options = \<lparr>init_method = None, init_headers = None, init_body = None\<rparr>"

text \<open>
  A response: its status, its status text and what \<^verbatim>\<open>response.json()\<close> resolves to
  (\<open>None\<close> when the body is not JSON and the promise rejects). \<^verbatim>\<open>response.ok\<close> is
  a status from 200 to 299.
\<close>

record 'n response =
  status :: nat
  statusText :: string
  json_body :: "'n json option"

definition ok :: "'n response \<Rightarrow> bool" where
  "ok r = (200 \<le> status r \<and> status r \<le> 299)"

text \<open>
  How \<^verbatim>\<open>fetchApi\<close> can reject: \<^verbatim>\<open>fetch\<close> itself rejects (no response), the helper
  throws an \<^verbatim>\<open>ApiError\<close> with a status and a message, \<^verbatim>\<open>response.json()\<close>
  rejects on a response that is ok, or the construction of the \<^verbatim>\<open>ApiError\<close> throws
  a \<^verbatim>\<open>TypeError\<close> because its message has no string conversion.
\<close>

datatype api_failure =
    FetchRejected
  | ApiError nat string
  | JsonRejected
  | TypeError

text \<open>
  \<^verbatim>\<open>errorData.detail || errorData.error || errorMessage\<close> inside the \<^verbatim>\<open>try\<close>:
  reading a property of \<^verbatim>\<open>null\<close> throws; a string, number, boolean or array has no
  property \<^verbatim>\<open>detail\<close> or \<^verbatim>\<open>error\<close>, so the message stays what it was; an object
  gives its first truthy one of the two, if any.
\<close>

definition first_truthy :: "('n::zero) json option \<Rightarrow> 'n json option" where
  "first_truthy v = (case v of None \<Rightarrow> None | Some x \<Rightarrow> if truthy x then Some x else None)"

datatype 'n body_reading = ReadThrows | NoMessage | Message "'n json"

fun read_body :: "('n::zero) json \<Rightarrow> 'n body_reading" where
  "read_body JNull = ReadThrows"
| "read_body (JObject kvs) =
     (case first_truthy (own_property kvs ''detail'') of
        Some d \<Rightarrow> Message d
      | None \<Rightarrow>
          (case first_truthy (own_property kvs ''error'') of
             Some e \<Rightarrow> Message e
           | None \<Rightarrow> NoMessage))"
| "read_body v = NoMessage"

text \<open>
  The \<^verbatim>\<open>try\<close>/\<^verbatim>\<open>catch\<close> of the failure branch, and then the message as
  \<^verbatim>\<open>new ApiError(response.status, errorMessage)\<close> converts it to a string; \<open>None\<close>
  when that conversion throws.
\<close>

definition failure_message :: "('n \<Rightarrow> string) \<Rightarrow> ('n::zero) response \<Rightarrow> string option" where
  "failure_message shw r =
     (let errorMessage = ''HTTP '' @ show_nat (status r);
          caught = (if statusText r \<noteq> [] then statusText r else errorMessage)
      in case json_body r of
           None \<Rightarrow> Some caught
         | Some errorData \<Rightarrow>
             (case read_body errorData of
                ReadThrows \<Rightarrow> Some caught
              | NoMessage \<Rightarrow> Some errorMessage
              | Message v \<Rightarrow> js_String shw v))"

text \<open>
  The request \<^verbatim>\<open>fetchApi\<close> sends. The options are spread after the merged headers,
  so headers given in the options replace them; without any, the content type is the
  only header.
\<close>

definition build_request :: "string \<Rightarrow> string \<Rightarrow> 'n request_init \<Rightarrow> 'n request" where
  "build_request base endpoint options =
     \<lparr>url = base @ endpoint,
      http_method = (case init_method options of None \<Rightarrow> ''GET'' | Some m \<Rightarrow> m),
      headers =
        (case init_headers options of
           None \<Rightarrow> [(''Content-Type'', ''application/json'')]
         | Some hs \<Rightarrow> hs),
      body = init_body options\<rparr>"

text \<open>
  \<^verbatim>\<open>fetchApi\<close>. The server is the environment: it answers a request with a response,
  or with nothing when the network fails.
\<close>

definition fetchApi ::
  "('n \<Rightarrow> string) \<Rightarrow> string \<Rightarrow> ('n request \<Rightarrow> ('n::zero) response option) \<Rightarrow>
   string \<Rightarrow> 'n request_init \<Rightarrow> api_failure + 'n json" where
  "fetchApi shw base server endpoint options =
     (case server (build_request base endpoint options) of
        None \<Rightarrow> Inl FetchRejected
      | Some r \<Rightarrow>
          if \<not> ok r
          then (case failure_message shw r of
                  None \<Rightarrow> Inl TypeError
                | Some m \<Rightarrow> Inl (ApiError (status r) m))
          else (case json_body r of None \<Rightarrow> Inl JsonRejected | Some v \<Rightarrow> Inr v))"

text \<open>The two lines a failure message can fall back to.\<close>

definition http_line :: "'n response \<Rightarrow> string" where
  "http_line r = ''HTTP '' @ show_nat (status r)"

definition status_line :: "'n response \<Rightarrow> string" where
  "status_line r = (if statusText r \<noteq> [] then statusText r else http_line r)"

section \<open>The declared types (types/index.ts)\<close>

text \<open>
  The interfaces of values that cross the wire are read as predicates on JSON values:
  a value has the type when it is an object whose members have the declared types
  (further members are allowed, a member marked \<^verbatim>\<open>?\<close> may be missing).
\<close>

definition is_string :: "'n json option \<Rightarrow> bool" where
  "is_string v = (case v of Some (JString s) \<Rightarrow> True | _ \<Rightarrow> False)"

definition is_number :: "'n json option \<Rightarrow> bool" where
  "is_number v = (case v of Some (JNumber n) \<Rightarrow> True | _ \<Rightarrow> False)"

definition is_optional_number :: "'n json option \<Rightarrow> bool" where
  "is_optional_number v = (case v of None \<Rightarrow> True | Some (JNumber n) \<Rightarrow> True | _ \<Rightarrow> False)"

definition is_array_of :: "('n json \<Rightarrow> bool) \<Rightarrow> 'n json option \<Rightarrow> bool" where
  "is_array_of P v = (case v of Some (JArray xs) \<Rightarrow> list_all P xs | _ \<Rightarrow> False)"

fun is_QuestionRequest :: "'n json \<Rightarrow> bool" where
  "is_QuestionRequest (JObject kvs) =
     (is_string (own_property kvs ''policy_id'') \<and> is_string (own_property kvs ''question''))"
| "is_QuestionRequest v = False"

fun is_Citation :: "'n json \<Rightarrow> bool" where
  "is_Citation (JObject kvs) =
     (is_string (own_property kvs ''chunk_id'')
      \<and> is_optional_number (own_property kvs ''page_number'')
      \<and> is_string (own_property kvs ''text_snippet'')
      \<and> is_number (own_property kvs ''relevance_score''))"
| "is_Citation v = False"

datatype question_type = policy_specific | general_insurance

fun question_type_name :: "question_type \<Rightarrow> string" where
  "question_type_name policy_specific = ''policy_specific''"
| "question_type_name general_insurance = ''general_insurance''"

definition is_question_type :: "'n json option \<Rightarrow> bool" where
  "is_question_type v =
     (v = Some (JString (question_type_name policy_specific))
      \<or> v = Some (JString (question_type_name general_insurance)))"

fun is_AnswerResponse :: "'n json \<Rightarrow> bool" where
  "is_AnswerResponse (JObject kvs) =
     (is_string (own_property kvs ''answer'')
      \<and> is_question_type (own_property kvs ''question_type'')
      \<and> is_array_of is_Citation (own_property kvs ''citations'')
      \<and> is_array_of (\<lambda>x. is_string (Some x)) (own_property kvs ''web_sources'')
      \<and> is_number (own_property kvs ''confidence''))"
| "is_AnswerResponse v = False"

text \<open>
  The values the page builds and keeps are records. The field \<^verbatim>\<open>text\<close> of a
  clause is \<open>clause_text\<close> here.
\<close>

record 'n HighlightedClause =
  clause_id :: string
  title :: string
  clause_text :: string
  reason :: string
  norm_comparison :: string
  category :: string
  page_number :: "'n option"

record 'n PolicyOverview =
  policy_id :: string
  filename :: string
  upload_date :: string
  total_pages :: 'n
  total_chunks :: 'n
  highlighted_clauses :: "'n HighlightedClause list"

text \<open>
  The upload response: the page trusts its outer fields and inspects each highlight
  at run time, so the highlights stay JSON values.
\<close>

record 'n PolicyUploadResponse =
  response_policy_id :: string
  response_filename :: string
  response_total_chunks :: 'n
  highlights :: "'n json list"

datatype stage = uploading | processing | analyzing | complete

record 'n UploadProgress =
  stage :: stage
  progress :: 'n
  message :: string

section \<open>The API object (utils/api.ts)\<close>

definition healthCheck ::
  "('n \<Rightarrow> string) \<Rightarrow> string \<Rightarrow> ('n request \<Rightarrow> ('n::zero) response option) \<Rightarrow>
   api_failure + 'n json" where
  "healthCheck shw base server = fetchApi shw base server ''/health'' no_options"

definition getPolicyOverview ::
  "('n \<Rightarrow> string) \<Rightarrow> string \<Rightarrow> ('n request \<Rightarrow> ('n::zero) response option) \<Rightarrow>
   string \<Rightarrow> api_failure + 'n json" where
  "getPolicyOverview shw base server policyId =
     fetchApi shw base server (''/policies/'' @ policyId @ ''/overview'') no_options"

definition listPolicies ::
  "('n \<Rightarrow> string) \<Rightarrow> string \<Rightarrow> ('n request \<Rightarrow> ('n::zero) response option) \<Rightarrow>
   api_failure + 'n json" where
  "listPolicies shw base server = fetchApi shw base server ''/policies/'' no_options"

definition deletePolicy ::
  "('n \<Rightarrow> string) \<Rightarrow> string \<Rightarrow> ('n request \<Rightarrow> ('n::zero) response option) \<Rightarrow>
   string \<Rightarrow> api_failure + unit" where
  "deletePolicy shw base server policyId =
     map_sum id (\<lambda>v. ())
       (fetchApi shw base server (''/policies/'' @ policyId)
          (no_options\<lparr>init_method := Some ''DELETE''\<rparr>))"

text \<open>\<^verbatim>\<open>askQuestion\<close> posts the JSON text of the request it is given.\<close>

definition askQuestion ::
  "('n \<Rightarrow> string) \<Rightarrow> string \<Rightarrow> ('n request \<Rightarrow> ('n::zero) response option) \<Rightarrow>
   'n json \<Rightarrow> api_failure + 'n json" where
  "askQuestion shw base server request =
     fetchApi shw base server ''/questions/ask''
       (no_options\<lparr>init_method := Some ''POST'', init_body := Some request\<rparr>)"

definition getQuestionHistory ::
  "('n \<Rightarrow> string) \<Rightarrow> string \<Rightarrow> ('n request \<Rightarrow> ('n::zero) response option) \<Rightarrow>
   string \<Rightarrow> api_failure + 'n json" where
  "getQuestionHistory shw base server policyId =
     fetchApi shw base server (''/questions/history/'' @ policyId) no_options"

text \<open>
  \<^verbatim>\<open>uploadPolicy\<close> goes through an \<^verbatim>\<open>XMLHttpRequest\<close>. What the request does is
  the environment: the progress events of the upload (the percentage
  \<^verbatim>\<open>loaded / total * 100\<close> of an event whose length is computable, \<open>None\<close> for one
  whose length is not), and then either a network error or a load with a status, a
  status text and the parsed response text (\<open>None\<close> when \<^verbatim>\<open>JSON.parse\<close> throws).
  The promise has no handler for an aborted or timed-out request, which settles
  nothing and is left out.
\<close>

datatype 'r xhr_end = XhrError | XhrLoad nat string "'r option"

record ('n, 'r) xhr =
  progress_events :: "'n option list"
  xhr_end :: "'r xhr_end"

text \<open>
  The three rejections of \<^verbatim>\<open>uploadPolicy\<close>; each is an \<^verbatim>\<open>Error\<close> with a
  message.
\<close>

datatype upload_failure = NetworkError | ParseFailed | UploadApiError nat string

fun failure_text :: "upload_failure \<Rightarrow> string" where
  "failure_text NetworkError = ''Network error''"
| "failure_text ParseFailed = ''Failed to parse response''"
| "failure_text (UploadApiError st txt) = txt"

definition uploadPolicy :: "('n, 'r) xhr \<Rightarrow> 'n list \<times> (upload_failure + 'r)" where
  "uploadPolicy x =
     (List.map_filter id (progress_events x),
      (case xhr_end x of
         XhrError \<Rightarrow> Inl NetworkError
       | XhrLoad st txt parsed \<Rightarrow>
           if 200 \<le> st \<and> st < 300
           then (case parsed of Some r \<Rightarrow> Inr r | None \<Rightarrow> Inl ParseFailed)
           else Inl (UploadApiError st txt)))"

section \<open>The upload component (FileUpload)\<close>

record File =
  file_name :: string
  file_type :: string
  file_size :: nat

text \<open>
  What a handler of the component does, in order: the state setters it calls, the
  upload it starts, the two seconds it waits and the callback it gives the result to.
\<close>

datatype ('n, 'r) upload_action =
    SetDragActive bool
  | SetUploading bool
  | SetProgress "'n UploadProgress"
  | SetError "string option"
  | CallUploadPolicy File
  | WaitMs nat
  | OnUploadComplete 'r

definition not_a_pdf :: string where
  "not_a_pdf = ''Bitte w'' @ [CHR 0xE4] @ ''hlen Sie eine PDF-Datei aus.''"

definition too_large :: string where
  "too_large = ''Die Datei ist zu gro'' @ [CHR 0xDF] @ ''. Maximum: 50MB''"

definition ready :: "('n::zero) UploadProgress" where
  "ready = \<lparr>stage = uploading, progress = 0, message = ''Bereit zum Upload...''\<rparr>"

text \<open>
  \<^verbatim>\<open>handleFile\<close>. The parameter \<open>rnd\<close> prints \<^verbatim>\<open>Math.round\<close> of a percentage;
  \<open>upload\<close> is \<^verbatim>\<open>api.uploadPolicy\<close> with its environment, giving the progress it
  reports and how it settles. Every rejection of \<^verbatim>\<open>api.uploadPolicy\<close> is an
  \<^verbatim>\<open>Error\<close>, so the message shown is the error's own. The callback is recorded as
  called, and the list is the one of a callback that returns.
\<close>

definition handleFile ::
  "('n \<Rightarrow> string) \<Rightarrow> (File \<Rightarrow> 'n list \<times> (upload_failure + 'r)) \<Rightarrow> File \<Rightarrow>
   ('n::{zero,numeral}, 'r) upload_action list" where
  "handleFile rnd upload file =
     (if \<not> str_includes (file_type file) ''pdf'' then [SetError (Some not_a_pdf)]
      else if file_size file > 50 * 1024 * 1024 then [SetError (Some too_large)]
      else
        [SetError None,
         SetUploading True,
         SetProgress \<lparr>stage = uploading, progress = 0,
                      message = ''Upload l'' @ [CHR 0xE4] @ ''uft...''\<rparr>,
         CallUploadPolicy file]
        @ map (\<lambda>p. SetProgress \<lparr>stage = uploading, progress = p,
                                  message = ''Upload: '' @ rnd p @ ''%''\<rparr>)
            (fst (upload file))
        @ (case snd (upload file) of
             Inr result \<Rightarrow>
               [SetProgress \<lparr>stage = processing, progress = 90,
                             message = ''Verarbeitung l'' @ [CHR 0xE4] @ ''uft...''\<rparr>,
                WaitMs 2000,
                SetProgress \<lparr>stage = complete, progress = 100,
                             message = ''Upload erfolgreich!''\<rparr>,
                OnUploadComplete result]
           | Inl e \<Rightarrow> [SetError (Some (failure_text e)), SetProgress ready])
        @ [SetUploading False])"

text \<open>
  \<^verbatim>\<open>handleDrag\<close> follows the type of the drag event. A drop or a choice in the file
  input hands the first file, if any, to \<^verbatim>\<open>handleFile\<close>.
\<close>

definition handleDrag :: "string \<Rightarrow> ('n, 'r) upload_action list" where
  "handleDrag event_type =
     (if event_type = ''dragenter'' \<or> event_type = ''dragover'' then [SetDragActive True]
      else if event_type = ''dragleave'' then [SetDragActive False]
      else [])"

definition handleDrop ::
  "('n \<Rightarrow> string) \<Rightarrow> (File \<Rightarrow> 'n list \<times> (upload_failure + 'r)) \<Rightarrow> File list \<Rightarrow>
   ('n::{zero,numeral}, 'r) upload_action list" where
  "handleDrop rnd upload files =
     SetDragActive False # (case files of [] \<Rightarrow> [] | f # fs \<Rightarrow> handleFile rnd upload f)"

definition handleFileInput ::
  "('n \<Rightarrow> string) \<Rightarrow> (File \<Rightarrow> 'n list \<times> (upload_failure + 'r)) \<Rightarrow> File list \<Rightarrow>
   ('n::{zero,numeral}, 'r) upload_action list" where
  "handleFileInput rnd upload files =
     (case files of [] \<Rightarrow> [] | f # fs \<Rightarrow> handleFile rnd upload f)"

text \<open>The files a handler run gave to the upload API, and the errors it set.\<close>

definition uploads_of :: "('n, 'r) upload_action list \<Rightarrow> File list" where
  "uploads_of as = List.map_filter (\<lambda>a. case a of CallUploadPolicy f \<Rightarrow> Some f | _ \<Rightarrow> None) as"


section \<open>The page (Home)\<close>

text \<open>
  One highlight of the upload response. The guard of every field is
  \<^verbatim>\<open>typeof highlight === 'object' && highlight && 'k' in highlight\<close>. The names
  tested are the six field names; none is an index, \<^verbatim>\<open>length\<close> or a member of a
  prototype, so an array has none of them and an object has one exactly when it is an
  own property.
\<close>

fun typeof :: "'n json \<Rightarrow> string" where
  "typeof JNull = ''object''"
| "typeof (JBool b) = ''boolean''"
| "typeof (JNumber n) = ''number''"
| "typeof (JString s) = ''string''"
| "typeof (JArray xs) = ''object''"
| "typeof (JObject kvs) = ''object''"

fun member :: "'n json \<Rightarrow> string \<Rightarrow> 'n json option" where
  "member (JObject kvs) k = own_property kvs k"
| "member v k = None"

definition has_field :: "('n::zero) json \<Rightarrow> string \<Rightarrow> bool" where
  "has_field highlight k =
     (typeof highlight = ''object'' \<and> truthy highlight \<and> member highlight k \<noteq> None)"

text \<open>
  A string field: \<^verbatim>\<open>String(highlight.k)\<close> under the guard, the default otherwise;
  \<open>None\<close> when \<^verbatim>\<open>String\<close> throws.
\<close>

definition string_field ::
  "('n \<Rightarrow> string) \<Rightarrow> ('n::zero) json \<Rightarrow> string \<Rightarrow> string \<Rightarrow> string option" where
  "string_field shw highlight k dflt =
     (if has_field highlight k
      then (case member highlight k of Some v \<Rightarrow> js_String shw v | None \<Rightarrow> Some dflt)
      else Some dflt)"

definition number_field :: "('n::zero) json \<Rightarrow> string \<Rightarrow> 'n option" where
  "number_field highlight k =
     (if has_field highlight k
      then (case member highlight k of
              Some v \<Rightarrow> if typeof v = ''number'' then (case v of JNumber n \<Rightarrow> Some n | _ \<Rightarrow> None) else None
            | None \<Rightarrow> None)
      else None)"

text \<open>
  The callback of \<^verbatim>\<open>result.highlights.map\<close>; \<open>now\<close> is what \<^verbatim>\<open>Date.now()\<close> returns
  when the callback runs. The fields of the object literal are evaluated in their
  order; \<open>None\<close> when one of the five conversions throws.
\<close>

definition convert_highlight ::
  "('n \<Rightarrow> string) \<Rightarrow> nat \<Rightarrow> nat \<Rightarrow> ('n::zero) json \<Rightarrow> 'n HighlightedClause option" where
  "convert_highlight shw now index highlight =
     (case string_field shw highlight ''title'' ''Unbenannte Klausel'' of
        None \<Rightarrow> None
      | Some t \<Rightarrow>
     (case string_field shw highlight ''text'' [] of
        None \<Rightarrow> None
      | Some x \<Rightarrow>
     (case string_field shw highlight ''reason'' [] of
        None \<Rightarrow> None
      | Some r \<Rightarrow>
     (case string_field shw highlight ''norm_comparison'' [] of
        None \<Rightarrow> None
      | Some c \<Rightarrow>
     (case string_field shw highlight ''category'' ''other'' of
        None \<Rightarrow> None
      | Some g \<Rightarrow>
          Some \<lparr>clause_id = ''clause-'' @ show_nat index @ ''-'' @ show_nat now,
                title = t, clause_text = x, reason = r, norm_comparison = c, category = g,
                page_number = number_field highlight ''page_number''\<rparr>)))))"

text \<open>
  \<^verbatim>\<open>handleUploadComplete\<close>, up to the state it sets: \<open>iso_now\<close> is
  \<^verbatim>\<open>new Date().toISOString()\<close> and \<open>clock i\<close> is \<^verbatim>\<open>Date.now()\<close> at the time the
  highlight of index \<open>i\<close> is converted. The result is the policy given to
  \<^verbatim>\<open>setUploadedPolicy\<close>; \<open>None\<close> when the conversion of a highlight throws, and
  then no policy is set.
\<close>

definition handleUploadComplete ::
  "('n \<Rightarrow> string) \<Rightarrow> string \<Rightarrow> (nat \<Rightarrow> nat) \<Rightarrow> ('n::zero) PolicyUploadResponse \<Rightarrow>
   'n PolicyOverview option" where
  "handleUploadComplete shw iso_now clock result =
     (case those
             (map (\<lambda>(index, highlight). convert_highlight shw (clock index) index highlight)
                (enumerate 0 (highlights result))) of
        None \<Rightarrow> None
      | Some clauses \<Rightarrow>
          Some \<lparr>policy_id = response_policy_id result,
                filename = response_filename result,
                upload_date = iso_now,
                total_pages = 0,
                total_chunks = response_total_chunks result,
                highlighted_clauses = clauses\<rparr>)"

text \<open>
  What a handler of the page can do to the outside: write a line to the console, or
  send a question through \<^verbatim>\<open>api.askQuestion\<close>. \<^verbatim>\<open>handleAskQuestion\<close> returns at
  once while no policy is loaded, and otherwise writes one line to the console; the
  call of the API is left as a TODO in the source, so it sends nothing.
\<close>

datatype 'n page_effect = ConsoleLog "string list" | SendQuestion "'n json"

definition handleAskQuestion :: "'n PolicyOverview option \<Rightarrow> string \<Rightarrow> 'n page_effect list" where
  "handleAskQuestion uploadedPolicy question =
     (case uploadedPolicy of
        None \<Rightarrow> []
      | Some p \<Rightarrow> [ConsoleLog [''Asking question:'', question, ''for policy:'', policy_id p]])"

definition handleStartOver :: "'n PolicyOverview option" where
  "handleStartOver = None"

section \<open>The tabbed view (PolicyTabs)\<close>

record tabs_state =
  selectedIndex :: nat
  question :: string

definition initial_tabs :: tabs_state where
  "initial_tabs = \<lparr>selectedIndex = 0, question = []\<rparr>"

text \<open>The four quick questions of the overview tab, in the order of the buttons.\<close>

definition quick_questions :: "string list" where
  "quick_questions =
     [''Was sind meine Wartezeiten?'',
      ''Welche Leistungen sind ausgeschlossen?'',
      ''Wie hoch ist meine Selbstbeteiligung?'',
      ''Welche Leistungen sind im Ausland versichert?'']"

text \<open>
  The button of the question tab: \<^verbatim>\<open>disabled={!question.trim()}\<close>, and its click
  handler. The handler gives the calls of \<^verbatim>\<open>onAskQuestion\<close> it makes and the state
  it leaves.
\<close>

definition ask_disabled :: "string \<Rightarrow> bool" where
  "ask_disabled q = (trim q = [])"

definition ask_onClick :: "tabs_state \<Rightarrow> string list \<times> tabs_state" where
  "ask_onClick st =
     (if trim (question st) \<noteq> [] then ([question st], st\<lparr>question := []\<rparr>) else ([], st))"

text \<open>
  What the user can do: type into the text area, press the ask button (a disabled
  button gets no click), press one of the quick questions, choose a tab.
\<close>

datatype tabs_event = ChangeQuestion string | ClickAsk | ClickQuick nat | SelectTab nat

fun tabs_step :: "tabs_state \<Rightarrow> tabs_event \<Rightarrow> string list \<times> tabs_state" where
  "tabs_step st (ChangeQuestion v) = ([], st\<lparr>question := v\<rparr>)"
| "tabs_step st ClickAsk = (if ask_disabled (question st) then ([], st) else ask_onClick st)"
| "tabs_step st (ClickQuick i) =
     (if i < length quick_questions then ([quick_questions ! i], st) else ([], st))"
| "tabs_step st (SelectTab i) = ([], st\<lparr>selectedIndex := i\<rparr>)"

fun tabs_run :: "tabs_state \<Rightarrow> tabs_event list \<Rightarrow> string list \<times> tabs_state" where
  "tabs_run st [] = ([], st)"
| "tabs_run st (e # es) =
     (let (asked, st') = tabs_step st e; (asked', st'') = tabs_run st' es
      in (asked @ asked', st''))"








section \<open>The pipeline behind the API\<close>

text \<open>
  Modelled from the spec: the Question Router (section 4.4), which is backend code and
  not among the sources. It decides with a language-model classification of the
  question text and, if available, a sample of the topics of the indexed chunks; if no
  document id is supplied it forces \<open>general_insurance\<close> regardless of content. The
  classification call \<open>classify\<close> and the topic sample \<open>topics\<close> are collaborators.
\<close>

definition route_question ::
  "(string \<Rightarrow> 't list \<Rightarrow> question_type) \<Rightarrow> ('d \<Rightarrow> 't list) \<Rightarrow> 'd option \<Rightarrow> string \<Rightarrow>
   question_type" where
  "route_question classify topics document_id question_text =
     (case document_id of
        None \<Rightarrow> general_insurance
      | Some d \<Rightarrow> classify question_text (topics d))"

text \<open>
  Modelled from the spec: the Norm Comparator (section 4.3), which is backend code and
  not among the sources. Its collaborators are the query for the single nearest norm
  of a chunk, the deviation score of a chunk against that norm, the minimum deviation
  a highlight needs, the test that two chunks are near-identical (similarity above the
  dedupe threshold), the requested number of highlights and the language-model call
  that explains a selected chunk (\<open>None\<close> when the call fails).
\<close>

record ('c, 'm, 's, 'h) comparator =
  nearest_norm :: "'c \<Rightarrow> 'm"
  deviation :: "'c \<Rightarrow> 'm \<Rightarrow> 's"
  min_deviation :: 's
  near_identical :: "'c \<Rightarrow> 'c \<Rightarrow> bool"
  top_n :: nat
  explain :: "'c \<Rightarrow> 'm \<Rightarrow> 'h option"

text \<open>
  Modelled from the spec: "select the top N (bounded 3-5)": the requested number is
  brought into the range from 3 to 5.
\<close>

definition bounded_n :: "nat \<Rightarrow> nat" where
  "bounded_n n = max 3 (min 5 n)"

text \<open>
  Modelled from the spec: deduplication of the ranked chunks; a chunk near-identical
  to one already kept is the lower-ranked of the two and is dropped.
\<close>

fun dedupe :: "('a \<Rightarrow> 'a \<Rightarrow> bool) \<Rightarrow> 'a list \<Rightarrow> 'a list \<Rightarrow> 'a list" where
  "dedupe near kept [] = rev kept"
| "dedupe near kept (x # xs) =
     (if list_ex (\<lambda>k. near k x) kept then dedupe near kept xs
      else dedupe near (x # kept) xs)"

text \<open>
  Modelled from the spec: what highlight generation returns (section 4.3), backend code
  that is not among the sources: the highlight set, together with the distinct "no
  anomalies found" signal that accompanies the empty set of a document whose chunks
  are all near-identical to norms.
\<close>

record 'h highlight_result =
  highlight_set :: "'h list"
  no_anomalies_found :: bool

text \<open>
  Modelled from the spec: the algorithm of section 4.3. Each chunk is scored against
  its nearest norm; only chunks above the minimum deviation are candidates (fewer
  candidates give fewer highlights); the candidates are ranked by deviation, highest
  first, ties in document order; near-identical ones are dropped; the top N are
  explained, and a chunk whose explanation fails is left out. A document without any
  candidate, all its chunks being near-identical to norms, gives the empty set with
  the "no anomalies found" signal; this is a result like the others, not an error.
\<close>

definition generate_highlights ::
  "('c, 'm, 's::linorder, 'h) comparator \<Rightarrow> 'c list \<Rightarrow> 'h highlight_result" where
  "generate_highlights cmp chunks =
     (let scored = map (\<lambda>c. (c, nearest_norm cmp c)) chunks;
          score = (\<lambda>(c, m). deviation cmp c m);
          candidates = filter (\<lambda>cm. min_deviation cmp < score cm) scored;
          ranked = rev (sort_key score (rev candidates));
          deduped = dedupe (\<lambda>(c, m) (c', m'). near_identical cmp c c') [] ranked;
          selected = take (bounded_n (top_n cmp)) deduped
      in \<lparr>highlight_set = List.map_filter (\<lambda>(c, m). explain cmp c m) selected,
          no_anomalies_found = (candidates = [])\<rparr>)"

text \<open>
  Modelled from the spec: the Chunk of section 3 (without its embedding vector, which
  only the Vector Index reads) and the citations of the policy path of the Grounded
  Answer Composer (section 4.5), backend code that is not among the sources. The
  Vector Index answers the query with chunks and their relevance scores, best first;
  the composer keeps the top \<open>k\<close>, discards those below the minimum relevance and
  cites each of the rest: chunk id, page number (a chunk may have none), a snippet of
  at most \<open>snippet_length\<close> characters from the start of the chunk text, and the
  relevance score. A citation is written as the JSON object the declared type
  \<^verbatim>\<open>Citation\<close> describes.
\<close>

record 'n Chunk =
  chunk_ident :: string
  document_id :: string
  sequence_index :: nat
  chunk_page_number :: "'n option"
  chunk_text :: string
  token_count :: nat

definition cite :: "nat \<Rightarrow> 'n Chunk \<times> 'n \<Rightarrow> 'n json" where
  "cite snippet_length cs =
     (case cs of (chunk, score) \<Rightarrow>
        JObject
          ([(''chunk_id'', JString (chunk_ident chunk))]
           @ (case chunk_page_number chunk of None \<Rightarrow> [] | Some p \<Rightarrow> [(''page_number'', JNumber p)])
           @ [(''text_snippet'', JString (take snippet_length (chunk_text chunk))),
              (''relevance_score'', JNumber score)]))"

definition policy_citations ::
  "nat \<Rightarrow> 'n \<Rightarrow> nat \<Rightarrow> ('n Chunk \<times> ('n::linorder)) list \<Rightarrow> 'n json list" where
  "policy_citations k min_relevance snippet_length retrieved =
     map (cite snippet_length)
       (filter (\<lambda>(chunk, score). min_relevance \<le> score) (take k retrieved))"

section \<open>The highlight conversion in the words of its description\<close>

text \<open>
  The conversion as it is described, to be compared with \<open>convert_highlight\<close> below.
  A string field of the clause is the string of the member of that name, or the
  default where the highlight is not an object or has no such member; the page number
  is the member of that name where it is a number, and absent otherwise.
\<close>

definition string_member ::
  "('n \<Rightarrow> string) \<Rightarrow> 'n json \<Rightarrow> string \<Rightarrow> string \<Rightarrow> string \<Rightarrow> bool" where
  "string_member shw highlight k dflt s =
     (case member highlight k of None \<Rightarrow> s = dflt | Some v \<Rightarrow> js_String shw v = Some s)"

definition coerced_from ::
  "('n \<Rightarrow> string) \<Rightarrow> 'n json \<Rightarrow> 'n HighlightedClause \<Rightarrow> bool" where
  "coerced_from shw highlight clause =
     (string_member shw highlight ''title'' ''Unbenannte Klausel'' (title clause)
      \<and> string_member shw highlight ''text'' [] (clause_text clause)
      \<and> string_member shw highlight ''reason'' [] (reason clause)
      \<and> string_member shw highlight ''norm_comparison'' [] (norm_comparison clause)
      \<and> string_member shw highlight ''category'' ''other'' (category clause)
      \<and> page_number clause =
          (case member highlight ''page_number'' of Some (JNumber n) \<Rightarrow> Some n | _ \<Rightarrow> None))"

text \<open>
  The highlights that can be converted: each of the five members that are turned into
  strings, where present, has a string conversion.
\<close>

definition string_fields :: "string list" where
  "string_fields = [''title'', ''text'', ''reason'', ''norm_comparison'', ''category'']"

definition convertible :: "'n json \<Rightarrow> bool" where
  "convertible highlight =
     list_all (\<lambda>k. case member highlight k of None \<Rightarrow> True | Some v \<Rightarrow> printable v)
       string_fields"

text \<open>The six members the conversion reads, and an object cut down to them.\<close>

definition highlight_fields :: "string list" where
  "highlight_fields =
     [''title'', ''text'', ''reason'', ''norm_comparison'', ''category'', ''page_number'']"

definition known_members :: "(string \<times> 'n json) list \<Rightarrow> (string \<times> 'n json) list" where
  "known_members kvs = filter (\<lambda>kv. fst kv \<in> set highlight_fields) kvs"

section \<open>Sample values\<close>

text \<open>
  Integral numbers print in decimal; the sample values below use \<^typ>\<open>int\<close> for the
  numbers.
\<close>

definition show_int :: "int \<Rightarrow> string" where
  "show_int i = (if i < 0 then ''-'' @ show_nat (nat (- i)) else show_nat (nat i))"

definition answering :: "'n response \<Rightarrow> 'n request \<Rightarrow> 'n response option" where
  "answering r req = Some r"

definition sample_iso :: string where
  "sample_iso = ''2025-10-17T09:00:00.000Z''"

definition sample_clock :: "nat \<Rightarrow> nat" where
  "sample_clock i = 1700000000000 + i"

definition sample_upload :: "int PolicyUploadResponse" where
  "sample_upload =
     \<lparr>response_policy_id = ''p1'', response_filename = ''police.pdf'',
      response_total_chunks = 12,
      highlights =
        [JObject [(''title'', JString ''Wartezeit''), (''page_number'', JNumber 4),
                  (''score'', JNumber 7)],
         JString ''kaputt'',
         JObject [(''title'', JNumber 3), (''page_number'', JString ''4'')]]\<rparr>"


definition unprintable_upload :: "int PolicyUploadResponse" where
  "unprintable_upload =
     \<lparr>response_policy_id = ''p1'', response_filename = ''police.pdf'',
      response_total_chunks = 12,
      highlights = [JObject [(''title'', JObject [(''toString'', JNumber 1)])]]\<rparr>"

definition unknown_answer :: "int json" where
  "unknown_answer =
     JObject
       [(''answer'', JString ''Das kommt darauf an.''),
        (''question_type'', JString ''unknown''),
        (''citations'', JArray []),
        (''web_sources'', JArray []),
        (''confidence'', JNumber 0)]"

definition sample_clauses :: "int HighlightedClause list" where
  "sample_clauses =
     [\<lparr>clause_id = ''clause-0-1700000000000'', title = ''Wartezeit'', clause_text = [],
       reason = [], norm_comparison = [], category = ''other'', page_number = Some 4\<rparr>,
      \<lparr>clause_id = ''clause-1-1700000000001'', title = ''Unbenannte Klausel'',
       clause_text = [], reason = [], norm_comparison = [], category = ''other'',
       page_number = None\<rparr>,
      \<lparr>clause_id = ''clause-2-1700000000002'', title = ''3'', clause_text = [],
       reason = [], norm_comparison = [], category = ''other'', page_number = None\<rparr>]"

definition sample_policy :: "int PolicyOverview" where
  "sample_policy =
     \<lparr>policy_id = ''p1'', filename = ''police.pdf'', upload_date = sample_iso,
      total_pages = 0, total_chunks = 12, highlighted_clauses = sample_clauses\<rparr>"



definition sample_request :: "int json" where
  "sample_request =
     JObject [(''policy_id'', JString ''p1''),
              (''question'', JString ''Was ist meine Selbstbeteiligung?'')]"

definition sample_answer :: "int json" where
  "sample_answer =
     JObject
       [(''answer'', JString ''Ihre Selbstbeteiligung ist 500 EUR.''),
        (''question_type'', JString ''policy_specific''),
        (''citations'',
           JArray [JObject [(''chunk_id'', JString ''c7''),
                            (''text_snippet'', JString ''Selbstbeteiligung: 500 EUR''),
                            (''relevance_score'', JNumber 1)]]),
        (''web_sources'', JArray []),
        (''confidence'', JNumber 1)]"

definition no_upload :: "File \<Rightarrow> int list \<times> (upload_failure + unit)" where
  "no_upload f = ([], Inl NetworkError)"

definition png_file :: File where
  "png_file = \<lparr>file_name = ''photo.png'', file_type = ''image/png'', file_size = 1024\<rparr>"

definition pdf_file :: File where
  "pdf_file =
     \<lparr>file_name = ''police.pdf'', file_type = ''application/pdf'', file_size = 52428800\<rparr>"

definition sample_classify :: "string \<Rightarrow> string list \<Rightarrow> question_type" where
  "sample_classify q ts = (if ts = [] then general_insurance else policy_specific)"

definition sample_topics :: "string \<Rightarrow> string list" where
  "sample_topics d = [''Selbstbeteiligung'', ''Wartezeiten'']"

definition sample_comparator :: "(nat, nat, nat, string) comparator" where
  "sample_comparator =
     \<lparr>nearest_norm = (\<lambda>c. c mod 3),
      deviation = (\<lambda>c m. c),
      min_deviation = 2,
      near_identical = (\<lambda>c c'. c div 10 = c' div 10),
      top_n = 4,
      explain = (\<lambda>c m. if c = 7 then None else Some (show_nat c))\<rparr>"

definition sample_retrieved :: "(int Chunk \<times> int) list" where
  "sample_retrieved =
     [(\<lparr>chunk_ident = ''c7'', document_id = ''p1'', sequence_index = 7,
         chunk_page_number = Some 4, chunk_text = ''Selbstbeteiligung: 500 EUR pro Jahr'',
         token_count = 9\<rparr>, 9),
      (\<lparr>chunk_ident = ''c2'', document_id = ''p1'', sequence_index = 2,
         chunk_page_number = None, chunk_text = ''Allgemeine Bedingungen'',
         token_count = 3\<rparr>, 3)]"

section \<open>Properties of the string conversion\<close>

lemma those_None: "(those xs = None) = (None \<in> set xs)"
proof (induction xs)
  case Nil
  show ?case by simp
next
  case (Cons x xs)
  then show ?case by (cases x) (auto split: option.splits)
qed

lemma js_String_printable: "(js_String shw v = None) = (\<not> printable v)"
proof (induction v)
  case (JArray xs)
  let ?f = "\<lambda>x. if x = JNull then Some [] else js_String shw x"
  have "(None \<in> ?f ` set xs) = (\<exists>x \<in> set xs. \<not> printable x)"
  proof
    assume "None \<in> ?f ` set xs"
    then obtain x where x: "x \<in> set xs" and f: "?f x = None" by force
    from f have "x \<noteq> JNull" and "js_String shw x = None"
      by (simp_all split: if_splits)
    with x JArray.IH show "\<exists>x \<in> set xs. \<not> printable x" by blast
  next
    assume "\<exists>x \<in> set xs. \<not> printable x"
    then obtain x where x: "x \<in> set xs" and n: "\<not> printable x" by blast
    from n have "x \<noteq> JNull" by auto
    moreover from x n JArray.IH have "js_String shw x = None" by blast
    ultimately have "?f x = None" by simp
    then have "None = ?f x" by simp
    then show "None \<in> ?f ` set xs" using x by (rule image_eqI)
  qed
  then show ?case
    by (simp add: those_None list_all_iff)
next
  case (JObject kvs)
  show ?case by simp
qed simp_all

section \<open>Properties of the fetch helper\<close>

lemma failure_message_cases:
  "failure_message shw r =
     (case json_body r of
        None \<Rightarrow> Some (status_line r)
      | Some JNull \<Rightarrow> Some (status_line r)
      | Some (JObject kvs) \<Rightarrow>
          (case first_truthy (own_property kvs ''detail'') of
             Some d \<Rightarrow> js_String shw d
           | None \<Rightarrow>
               (case first_truthy (own_property kvs ''error'') of
                  Some e \<Rightarrow> js_String shw e
                | None \<Rightarrow> Some (http_line r)))
      | Some v \<Rightarrow> Some (http_line r))"
  by (simp add: failure_message_def status_line_def http_line_def Let_def
      split: option.splits json.splits)

lemma failure_message_detail:
  "json_body r = Some (JObject kvs) \<Longrightarrow> own_property kvs ''detail'' = Some d \<Longrightarrow> truthy d
   \<Longrightarrow> failure_message shw r = js_String shw d"
  by (simp add: failure_message_cases first_truthy_def)

lemma failure_message_error:
  "json_body r = Some (JObject kvs) \<Longrightarrow> first_truthy (own_property kvs ''detail'') = None
   \<Longrightarrow> own_property kvs ''error'' = Some e \<Longrightarrow> truthy e
   \<Longrightarrow> failure_message shw r = js_String shw e"
  by (simp add: failure_message_cases first_truthy_def)

lemma failure_message_http:
  assumes "json_body r = Some v" and "v \<noteq> JNull"
    and "\<forall>kvs. v = JObject kvs
          \<longrightarrow> first_truthy (own_property kvs ''detail'') = None
            \<and> first_truthy (own_property kvs ''error'') = None"
  shows "failure_message shw r = Some (''HTTP '' @ show_nat (status r))"
  using assms by (cases v) (simp_all add: failure_message_cases http_line_def)

text \<open>
  C8, as the claim states it, fails: a response with status 500, status text
  "Internal Server Error" and the body \<^verbatim>\<open>{}\<close> makes the helper throw an
  \<^verbatim>\<open>ApiError\<close> whose message is "HTTP 500", which is neither a field of the body
  nor the status text.
\<close>

theorem fetchApi_status_text_counterexample:
  "fetchApi show_int ''http://localhost:8000/api/v1''
     (answering \<lparr>status = 500, statusText = ''Internal Server Error'',
                  json_body = Some (JObject [])\<rparr>)
     ''/health'' no_options
   = Inl (ApiError 500 ''HTTP 500'')"
  by (simp add: fetchApi_def answering_def ok_def failure_message_def own_property_def
      first_truthy_def show_nat.simps)

text \<open>
  C8, amended. For every call that gets a response: if the status is not ok the helper
  never returns a value. It throws an \<^verbatim>\<open>ApiError\<close> with that status whose message
  is the string of the body's \<^verbatim>\<open>detail\<close> if that is truthy, else of the body's
  \<^verbatim>\<open>error\<close> if that is truthy, else "HTTP" and the status when the body is JSON
  other than \<^verbatim>\<open>null\<close>, and the status text (or, when that is empty, "HTTP" and
  the status) when the body is not JSON or is \<^verbatim>\<open>null\<close>; where the chosen
  \<^verbatim>\<open>detail\<close> or \<^verbatim>\<open>error\<close> has no string conversion (an object with an own
  member \<^verbatim>\<open>toString\<close>, or an array holding one) it throws a \<^verbatim>\<open>TypeError\<close> in the
  place of the \<^verbatim>\<open>ApiError\<close>. If the status is ok the helper returns the parsed
  body, and rejects when the body is not JSON.
\<close>

theorem fetchApi_outcome:
  assumes "server (build_request base endpoint options) = Some r"
  shows "(\<not> ok r \<longrightarrow>
            (\<forall>v. fetchApi shw base server endpoint options \<noteq> Inr v)
          \<and> fetchApi shw base server endpoint options =
              (case failure_message shw r of
                 Some m \<Rightarrow> Inl (ApiError (status r) m)
               | None \<Rightarrow> Inl TypeError))
       \<and> (ok r \<longrightarrow>
            fetchApi shw base server endpoint options =
              (case json_body r of None \<Rightarrow> Inl JsonRejected | Some v \<Rightarrow> Inr v))
       \<and> (\<forall>kvs d. json_body r = Some (JObject kvs)
              \<and> own_property kvs ''detail'' = Some d \<and> truthy d
            \<longrightarrow> failure_message shw r = js_String shw d
              \<and> (js_String shw d = None) = (\<not> printable d))
       \<and> (\<forall>kvs e. json_body r = Some (JObject kvs)
              \<and> first_truthy (own_property kvs ''detail'') = None
              \<and> own_property kvs ''error'' = Some e \<and> truthy e
            \<longrightarrow> failure_message shw r = js_String shw e
              \<and> (js_String shw e = None) = (\<not> printable e))
       \<and> (\<forall>v. json_body r = Some v \<and> v \<noteq> JNull
              \<and> (\<forall>kvs. v = JObject kvs
                    \<longrightarrow> first_truthy (own_property kvs ''detail'') = None
                      \<and> first_truthy (own_property kvs ''error'') = None)
            \<longrightarrow> failure_message shw r = Some (''HTTP '' @ show_nat (status r)))
       \<and> (json_body r = None \<or> json_body r = Some JNull
            \<longrightarrow> failure_message shw r =
                  Some (if statusText r \<noteq> [] then statusText r
                        else ''HTTP '' @ show_nat (status r)))"
proof (intro conjI)
  show "\<not> ok r \<longrightarrow>
      (\<forall>v. fetchApi shw base server endpoint options \<noteq> Inr v)
      \<and> fetchApi shw base server endpoint options =
          (case failure_message shw r of
             Some m \<Rightarrow> Inl (ApiError (status r) m)
           | None \<Rightarrow> Inl TypeError)"
    using assms by (simp add: fetchApi_def split: option.splits)
  show "ok r \<longrightarrow>
      fetchApi shw base server endpoint options =
        (case json_body r of None \<Rightarrow> Inl JsonRejected | Some v \<Rightarrow> Inr v)"
    using assms by (simp add: fetchApi_def)
  show "\<forall>kvs d. json_body r = Some (JObject kvs)
        \<and> own_property kvs ''detail'' = Some d \<and> truthy d
      \<longrightarrow> failure_message shw r = js_String shw d
        \<and> (js_String shw d = None) = (\<not> printable d)"
    by (simp add: failure_message_detail js_String_printable)
  show "\<forall>kvs e. json_body r = Some (JObject kvs)
        \<and> first_truthy (own_property kvs ''detail'') = None
        \<and> own_property kvs ''error'' = Some e \<and> truthy e
      \<longrightarrow> failure_message shw r = js_String shw e
        \<and> (js_String shw e = None) = (\<not> printable e)"
    by (simp add: failure_message_error js_String_printable)
  show "\<forall>v. json_body r = Some v \<and> v \<noteq> JNull
        \<and> (\<forall>kvs. v = JObject kvs
              \<longrightarrow> first_truthy (own_property kvs ''detail'') = None
                \<and> first_truthy (own_property kvs ''error'') = None)
      \<longrightarrow> failure_message shw r = Some (''HTTP '' @ show_nat (status r))"
    using failure_message_http [of r _ shw] by blast
  show "json_body r = None \<or> json_body r = Some JNull
      \<longrightarrow> failure_message shw r =
            Some (if statusText r \<noteq> [] then statusText r
                  else ''HTTP '' @ show_nat (status r))"
    by (auto simp: failure_message_cases status_line_def http_line_def)
qed

theorem fetchApi_outcome_witness:
  "answering \<lparr>status = 404, statusText = ''Not Found'',
       json_body = Some (JObject [(''detail'', JString ''Policy not found'')])\<rparr>
     (build_request ''http://localhost:8000/api/v1'' ''/policies/p1/overview'' no_options)
    = Some \<lparr>status = 404, statusText = ''Not Found'',
       json_body = Some (JObject [(''detail'', JString ''Policy not found'')])\<rparr>
   \<and> fetchApi show_int ''http://localhost:8000/api/v1''
     (answering \<lparr>status = 404, statusText = ''Not Found'',
       json_body = Some (JObject [(''detail'', JString ''Policy not found'')])\<rparr>)
     ''/policies/p1/overview'' no_options
   = Inl (ApiError 404 ''Policy not found'')
   \<and> fetchApi show_int ''http://localhost:8000/api/v1''
     (answering \<lparr>status = 422, statusText = ''Unprocessable Entity'',
       json_body = Some (JObject [(''detail'', JObject [(''toString'', JNumber 1)])])\<rparr>)
     ''/questions/ask'' no_options
   = Inl TypeError"
proof -
  have a: "answering \<lparr>status = 404, statusText = ''Not Found'',
       json_body = Some (JObject [(''detail'', JString ''Policy not found'')])\<rparr>
     (build_request ''http://localhost:8000/api/v1'' ''/policies/p1/overview'' no_options)
    = Some \<lparr>status = 404, statusText = ''Not Found'',
       json_body = Some (JObject [(''detail'', JString ''Policy not found'')])\<rparr>"
    by (simp add: answering_def)
  have b: "answering \<lparr>status = 422, statusText = ''Unprocessable Entity'',
       json_body = Some (JObject [(''detail'', JObject [(''toString'', JNumber (1::int))])])\<rparr>
     (build_request ''http://localhost:8000/api/v1'' ''/questions/ask'' no_options)
    = Some \<lparr>status = 422, statusText = ''Unprocessable Entity'',
       json_body = Some (JObject [(''detail'', JObject [(''toString'', JNumber 1)])])\<rparr>"
    by (simp add: answering_def)
  show ?thesis
    using a
      fetchApi_outcome [of "answering \<lparr>status = 404, statusText = ''Not Found'',
          json_body = Some (JObject [(''detail'', JString ''Policy not found'')])\<rparr>"
        "''http://localhost:8000/api/v1''" "''/policies/p1/overview''" no_options _ show_int,
        OF a, THEN conjunct1]
      fetchApi_outcome [of "answering \<lparr>status = 422, statusText = ''Unprocessable Entity'',
          json_body = Some (JObject [(''detail'', JObject [(''toString'', JNumber 1)])])\<rparr>"
        "''http://localhost:8000/api/v1''" "''/questions/ask''" no_options _ show_int,
        OF b, THEN conjunct1]
    by (simp add: ok_def failure_message_def read_body.simps first_truthy_def
        own_property_def)
qed

section \<open>Properties of the upload component\<close>

lemma uploads_of_Nil: "uploads_of [] = []"
  by (simp add: uploads_of_def List.map_filter_simps)

lemma uploads_of_Cons:
  "uploads_of (a # as) = (case a of CallUploadPolicy f \<Rightarrow> [f] | _ \<Rightarrow> []) @ uploads_of as"
  by (cases a) (simp_all add: uploads_of_def List.map_filter_simps)

lemma uploads_of_append: "uploads_of (as @ bs) = uploads_of as @ uploads_of bs"
  by (simp add: uploads_of_def List.map_filter_def)

lemma uploads_of_progress: "uploads_of (map (\<lambda>p. SetProgress (g p)) ps) = []"
  by (induction ps) (simp_all add: uploads_of_Cons uploads_of_Nil)

text \<open>
  C9. A file whose type does not include "pdf" or whose size exceeds
  \<open>50 * 1024 * 1024\<close> bytes makes \<^verbatim>\<open>handleFile\<close> set an error message and do
  nothing else, so the upload API is never called; a file that passes both checks is
  given to the upload API, once.
\<close>

theorem handleFile_uploads:
  "((\<not> str_includes (file_type file) ''pdf'' \<or> file_size file > 50 * 1024 * 1024)
      \<longrightarrow> uploads_of (handleFile rnd upload file) = []
        \<and> (handleFile rnd upload file = [SetError (Some not_a_pdf)]
           \<or> handleFile rnd upload file = [SetError (Some too_large)]))
   \<and> (str_includes (file_type file) ''pdf'' \<and> file_size file \<le> 50 * 1024 * 1024
      \<longrightarrow> uploads_of (handleFile rnd upload file) = [file])"
  by (auto simp: handleFile_def uploads_of_Nil uploads_of_Cons uploads_of_append
      uploads_of_progress split: sum.splits)

theorem handleFile_uploads_witness:
  "\<not> str_includes (file_type png_file) ''pdf''
   \<and> uploads_of (handleFile show_int no_upload png_file) = []
   \<and> str_includes (file_type pdf_file) ''pdf''
   \<and> file_size pdf_file \<le> 50 * 1024 * 1024
   \<and> uploads_of (handleFile show_int no_upload pdf_file) = [pdf_file]"
  using handleFile_uploads [of png_file show_int no_upload]
    handleFile_uploads [of pdf_file show_int no_upload]
  by (simp add: str_includes_def sublist_code png_file_def pdf_file_def)

section \<open>Properties of the question tab\<close>

lemma trim_quick: "\<forall>q \<in> set quick_questions. trim q \<noteq> []"
  by (simp add: quick_questions_def trim_def is_js_space_def)

lemma tabs_step_asked:
  "tabs_step st e = (asked, st') \<Longrightarrow> \<forall>q \<in> set asked. trim q \<noteq> []"
  using trim_quick
  by (cases e) (auto simp: ask_onClick_def ask_disabled_def split: if_splits)

lemma tabs_run_asked:
  "tabs_run st es = (asked, st') \<Longrightarrow> \<forall>q \<in> set asked. trim q \<noteq> []"
proof (induction es arbitrary: st asked st')
  case Nil
  then show ?case by simp
next
  case (Cons e es)
  obtain a1 s1 where s: "tabs_step st e = (a1, s1)" by (cases "tabs_step st e")
  obtain a2 s2 where r: "tabs_run s1 es = (a2, s2)" by (cases "tabs_run s1 es")
  from Cons.prems s r have "asked = a1 @ a2" by simp
  with tabs_step_asked [OF s] Cons.IH [OF r] show ?case by auto
qed

text \<open>
  C10. Whatever the user does, every question the view hands to the ask
  callback has a non-empty trimmed text. In the question tab the click handler calls
  the callback only when the trimmed input is non-empty, with the input as it is, and
  then the input state is the empty string; when the trimmed input is empty the button
  is disabled and the handler does nothing.
\<close>

theorem ask_question_guarded:
  "(tabs_run st es = (asked, st') \<longrightarrow> (\<forall>q \<in> set asked. trim q \<noteq> []))
   \<and> (fst (ask_onClick st) \<noteq> []
        \<longrightarrow> fst (ask_onClick st) = [question st] \<and> trim (question st) \<noteq> []
          \<and> question (snd (ask_onClick st)) = [])
   \<and> (trim (question st) = [] \<longrightarrow> ask_disabled (question st) \<and> ask_onClick st = ([], st))
   \<and> (fst (tabs_step st ClickAsk) \<noteq> []
        \<longrightarrow> fst (tabs_step st ClickAsk) = [question st] \<and> trim (question st) \<noteq> []
          \<and> question (snd (tabs_step st ClickAsk)) = [])"
  using tabs_run_asked [of st es asked st']
  by (auto simp: ask_onClick_def ask_disabled_def)

theorem ask_question_guarded_witness:
  "tabs_run initial_tabs
      [ChangeQuestion ''   '', ClickAsk, ChangeQuestion '' Was ist versichert? '', ClickAsk,
       ClickAsk]
     = (['' Was ist versichert? ''], initial_tabs)
   \<and> trim '' Was ist versichert? '' = ''Was ist versichert?''"
  using ask_question_guarded [of initial_tabs
      "[ChangeQuestion ''   '', ClickAsk, ChangeQuestion '' Was ist versichert? '', ClickAsk,
        ClickAsk]"
      "['' Was ist versichert? '']" initial_tabs]
  by (simp add: initial_tabs_def ask_onClick_def ask_disabled_def trim_def is_js_space_def)

section \<open>Properties of the highlight conversion\<close>

lemma string_field_cases:
  "string_field shw h k dflt =
     (case member h k of None \<Rightarrow> Some dflt | Some v \<Rightarrow> js_String shw v)"
  by (cases h) (auto simp: string_field_def has_field_def split: option.splits)

lemma number_field_cases:
  "number_field h k = (case member h k of Some (JNumber n) \<Rightarrow> Some n | _ \<Rightarrow> None)"
  by (cases h) (auto simp: number_field_def has_field_def split: option.splits json.splits)

lemma string_field_None:
  "(string_field shw h k dflt = None) = (\<exists>v. member h k = Some v \<and> \<not> printable v)"
  by (auto simp: string_field_cases js_String_printable split: option.splits)

lemma string_field_member:
  "string_field shw h k dflt = Some s \<Longrightarrow> string_member shw h k dflt s"
  by (auto simp: string_field_cases string_member_def split: option.splits)

lemma convertible_iff:
  "convertible h = (\<forall>k \<in> set string_fields. \<forall>v. member h k = Some v \<longrightarrow> printable v)"
  by (auto simp: convertible_def list_all_iff split: option.splits)

lemma convert_highlight_None:
  "(convert_highlight shw now index h = None) = (\<not> convertible h)"
proof -
  have "(convert_highlight shw now index h = None)
      = (string_field shw h ''title'' ''Unbenannte Klausel'' = None
         \<or> string_field shw h ''text'' [] = None
         \<or> string_field shw h ''reason'' [] = None
         \<or> string_field shw h ''norm_comparison'' [] = None
         \<or> string_field shw h ''category'' ''other'' = None)"
    by (auto simp: convert_highlight_def split: option.splits)
  also have "\<dots> = (\<not> convertible h)"
    by (auto simp: string_field_None convertible_iff string_fields_def)
  finally show ?thesis .
qed

lemma convert_highlight_Some:
  assumes "convert_highlight shw now index h = Some c"
  shows "coerced_from shw h c
       \<and> clause_id c = ''clause-'' @ show_nat index @ ''-'' @ show_nat now"
  using assms
  by (auto simp: convert_highlight_def coerced_from_def number_field_cases
      intro: string_field_member split: option.splits)

lemma convert_highlight_default:
  assumes "\<forall>kvs. h \<noteq> JObject kvs"
  shows "convert_highlight shw now index h =
       Some \<lparr>clause_id = ''clause-'' @ show_nat index @ ''-'' @ show_nat now,
             title = ''Unbenannte Klausel'', clause_text = [], reason = [],
             norm_comparison = [], category = ''other'', page_number = None\<rparr>"
  using assms
  by (cases h) (simp_all add: convert_highlight_def string_field_cases number_field_cases)

lemma map_of_filter_key:
  "P k \<Longrightarrow> map_of (filter (\<lambda>kv. P (fst kv)) xs) k = map_of xs k"
  by (induction xs) auto

lemma own_property_known:
  "k \<in> set highlight_fields \<Longrightarrow> own_property (known_members kvs) k = own_property kvs k"
  by (simp add: own_property_def known_members_def rev_filter
      map_of_filter_key [where P = "\<lambda>k. k \<in> set highlight_fields"])

lemma string_field_known:
  "k \<in> set highlight_fields \<Longrightarrow>
   string_field shw (JObject (known_members kvs)) k dflt = string_field shw (JObject kvs) k dflt"
  by (simp add: string_field_cases own_property_known)

lemma number_field_known:
  "k \<in> set highlight_fields \<Longrightarrow>
   number_field (JObject (known_members kvs)) k = number_field (JObject kvs) k"
  by (simp add: number_field_cases own_property_known)

lemma convert_highlight_known:
  "convert_highlight shw now index (JObject (known_members kvs)) =
     convert_highlight shw now index (JObject kvs)"
proof -
  have m: "''title'' \<in> set highlight_fields" "''text'' \<in> set highlight_fields"
    "''reason'' \<in> set highlight_fields" "''norm_comparison'' \<in> set highlight_fields"
    "''category'' \<in> set highlight_fields" "''page_number'' \<in> set highlight_fields"
    by (simp_all add: highlight_fields_def)
  show ?thesis
    by (simp only: convert_highlight_def m string_field_known number_field_known)
qed

lemma those_map_Some:
  "\<forall>x \<in> set xs. f x \<noteq> None \<Longrightarrow> those (map f xs) = Some (map (\<lambda>x. the (f x)) xs)"
  by (induction xs) auto

lemma handleUploadComplete_None:
  assumes "\<not> list_all convertible (highlights result)"
  shows "handleUploadComplete shw iso_now clock result = None"
proof -
  let ?f = "\<lambda>(index, highlight). convert_highlight shw (clock index) index highlight"
  from assms obtain i where i: "i < length (highlights result)"
    and n: "\<not> convertible (highlights result ! i)"
    by (auto simp: list_all_length)
  from i have "(i, highlights result ! i) \<in> set (enumerate 0 (highlights result))"
    by (simp add: in_set_enumerate_eq)
  moreover from n have "?f (i, highlights result ! i) = None"
    by (simp add: convert_highlight_None)
  ultimately have "None \<in> ?f ` set (enumerate 0 (highlights result))"
    by (metis (no_types, lifting) image_eqI)
  then have "those (map ?f (enumerate 0 (highlights result))) = None"
    by (simp add: those_None)
  then show ?thesis
    by (simp add: handleUploadComplete_def)
qed

lemma handleUploadComplete_Some:
  assumes "list_all convertible (highlights result)"
  shows "\<exists>policy. handleUploadComplete shw iso_now clock result = Some policy
       \<and> policy_id policy = response_policy_id result
       \<and> filename policy = response_filename result
       \<and> total_chunks policy = response_total_chunks result
       \<and> length (highlighted_clauses policy) = length (highlights result)
       \<and> (\<forall>i < length (highlights result).
            convert_highlight shw (clock i) i (highlights result ! i)
              = Some (highlighted_clauses policy ! i))"
proof -
  let ?f = "\<lambda>(index, highlight). convert_highlight shw (clock index) index highlight"
  let ?cs = "map (\<lambda>x. the (?f x)) (enumerate 0 (highlights result))"
  have all: "\<forall>x \<in> set (enumerate 0 (highlights result)). ?f x \<noteq> None"
  proof
    fix x
    assume "x \<in> set (enumerate 0 (highlights result))"
    then have "fst x < length (highlights result)"
      and "highlights result ! fst x = snd x"
      by (simp_all add: in_set_enumerate_eq)
    then have "snd x \<in> set (highlights result)"
      using nth_mem by force
    with assms have "convertible (snd x)" by (simp add: list_all_iff)
    then show "?f x \<noteq> None"
      by (cases x) (simp add: convert_highlight_None)
  qed
  then have t: "those (map ?f (enumerate 0 (highlights result))) = Some ?cs"
    by (rule those_map_Some)
  have nth: "\<forall>i < length (highlights result).
      convert_highlight shw (clock i) i (highlights result ! i) = Some (?cs ! i)"
  proof (intro allI impI)
    fix i
    assume i: "i < length (highlights result)"
    then have "(i, highlights result ! i) \<in> set (enumerate 0 (highlights result))"
      by (simp add: in_set_enumerate_eq)
    with all have "?f (i, highlights result ! i) \<noteq> None" by blast
    moreover from i have "?cs ! i = the (?f (i, highlights result ! i))"
      by (simp add: nth_enumerate_eq)
    ultimately show "convert_highlight shw (clock i) i (highlights result ! i) = Some (?cs ! i)"
      by auto
  qed
  from t nth show ?thesis
    by (simp add: handleUploadComplete_def)
qed

text \<open>
  C3, as the claim states it, fails: the conversion is not total. A highlight whose
  title is an object with a member named \<^verbatim>\<open>toString\<close> makes \<^verbatim>\<open>String\<close> throw
  inside \<^verbatim>\<open>handleUploadComplete\<close>, which then gives no clause and sets no policy.
\<close>

theorem highlight_conversion_counterexample:
  "handleUploadComplete show_int sample_iso sample_clock unprintable_upload = None"
  by (simp add: handleUploadComplete_def unprintable_upload_def convert_highlight_def
      string_field_def has_field_def own_property_def)

text \<open>
  C3, amended. For every upload result in which each of the five members that are
  turned into strings (title, text, reason, norm_comparison, category) has a string
  conversion wherever it is present, the conversion gives one clause for each highlight,
  whatever its shape otherwise: the string fields are the strings of the members of
  those names or their defaults ("other" for the category), and the page number is
  there only where the member is a number; a highlight that is not an object gives the
  defaults. Members other than the six it reads have no influence on the clause. For
  any other upload result the conversion throws and no policy is set.
\<close>

theorem highlights_coerced:
  "(list_all convertible (highlights result) \<longrightarrow>
      (\<exists>policy. handleUploadComplete shw iso_now clock result = Some policy
         \<and> length (highlighted_clauses policy) = length (highlights result)
         \<and> (\<forall>i < length (highlights result).
              coerced_from shw (highlights result ! i) (highlighted_clauses policy ! i)
              \<and> clause_id (highlighted_clauses policy ! i)
                  = ''clause-'' @ show_nat i @ ''-'' @ show_nat (clock i))))
   \<and> (\<not> list_all convertible (highlights result) \<longrightarrow>
        handleUploadComplete shw iso_now clock result = None)
   \<and> ((\<forall>kvs. highlight \<noteq> JObject kvs) \<longrightarrow>
        convert_highlight shw now index highlight =
          Some \<lparr>clause_id = ''clause-'' @ show_nat index @ ''-'' @ show_nat now,
                title = ''Unbenannte Klausel'', clause_text = [], reason = [],
                norm_comparison = [], category = ''other'', page_number = None\<rparr>)
   \<and> convert_highlight shw now index (JObject (known_members kvs)) =
       convert_highlight shw now index (JObject kvs)"
proof (intro conjI impI)
  assume "list_all convertible (highlights result)"
  from handleUploadComplete_Some [OF this, of shw iso_now clock]
  obtain policy where p: "handleUploadComplete shw iso_now clock result = Some policy"
    and l: "length (highlighted_clauses policy) = length (highlights result)"
    and c: "\<forall>i < length (highlights result).
        convert_highlight shw (clock i) i (highlights result ! i)
          = Some (highlighted_clauses policy ! i)"
    by blast
  from c have "\<forall>i < length (highlights result).
      coerced_from shw (highlights result ! i) (highlighted_clauses policy ! i)
      \<and> clause_id (highlighted_clauses policy ! i)
          = ''clause-'' @ show_nat i @ ''-'' @ show_nat (clock i)"
    using convert_highlight_Some by blast
  with p l show "\<exists>policy. handleUploadComplete shw iso_now clock result = Some policy
      \<and> length (highlighted_clauses policy) = length (highlights result)
      \<and> (\<forall>i < length (highlights result).
           coerced_from shw (highlights result ! i) (highlighted_clauses policy ! i)
           \<and> clause_id (highlighted_clauses policy ! i)
               = ''clause-'' @ show_nat i @ ''-'' @ show_nat (clock i))"
    by blast
next
  assume "\<not> list_all convertible (highlights result)"
  then show "handleUploadComplete shw iso_now clock result = None"
    by (rule handleUploadComplete_None)
next
  assume "\<forall>kvs. highlight \<noteq> JObject kvs"
  then show "convert_highlight shw now index highlight =
      Some \<lparr>clause_id = ''clause-'' @ show_nat index @ ''-'' @ show_nat now,
            title = ''Unbenannte Klausel'', clause_text = [], reason = [],
            norm_comparison = [], category = ''other'', page_number = None\<rparr>"
    by (rule convert_highlight_default)
next
  show "convert_highlight shw now index (JObject (known_members kvs)) =
      convert_highlight shw now index (JObject kvs)"
    by (rule convert_highlight_known)
qed

lemma sample_upload_converted:
  "handleUploadComplete show_int sample_iso sample_clock sample_upload = Some sample_policy"
  by (simp add: handleUploadComplete_def sample_upload_def sample_policy_def
      sample_clauses_def sample_clock_def convert_highlight_def string_field_def
      number_field_def has_field_def own_property_def show_int_def show_nat.simps)

lemma sample_upload_convertible: "list_all convertible (highlights sample_upload)"
  by (simp add: sample_upload_def convertible_def string_fields_def own_property_def)

theorem highlights_coerced_witness:
  "list_all convertible (highlights sample_upload)
   \<and> handleUploadComplete show_int sample_iso sample_clock sample_upload = Some sample_policy
   \<and> coerced_from show_int (highlights sample_upload ! 2) (highlighted_clauses sample_policy ! 2)
   \<and> title (highlighted_clauses sample_policy ! 2) = ''3''
   \<and> page_number (highlighted_clauses sample_policy ! 2) = None
   \<and> page_number (highlighted_clauses sample_policy ! 0) = Some 4"
proof -
  from highlights_coerced [of sample_upload show_int sample_iso sample_clock]
    sample_upload_convertible sample_upload_converted
  have "\<forall>i < length (highlights sample_upload).
      coerced_from show_int (highlights sample_upload ! i) (highlighted_clauses sample_policy ! i)"
    by auto
  moreover have "2 < length (highlights sample_upload)"
    by (simp add: sample_upload_def)
  ultimately have "coerced_from show_int (highlights sample_upload ! 2)
      (highlighted_clauses sample_policy ! 2)"
    by blast
  with sample_upload_convertible sample_upload_converted show ?thesis
    by (simp add: sample_policy_def sample_clauses_def)
qed

section \<open>Properties of the declared answer type\<close>

lemma question_type_name_eq: "(question_type_name s = question_type_name t) = (s = t)"
  by (cases s; cases t) simp_all

lemma answer_type_question_type:
  assumes "is_AnswerResponse answer"
  shows "(member answer ''question_type'' = Some (JString ''policy_specific'')
          \<or> member answer ''question_type'' = Some (JString ''general_insurance''))
       \<and> (\<exists>!t. member answer ''question_type'' = Some (JString (question_type_name t)))"
proof -
  from assms obtain kvs where a: "answer = JObject kvs"
    by (cases answer) simp_all
  with assms have q: "is_question_type (own_property kvs ''question_type'')" by simp
  then have d: "member answer ''question_type'' = Some (JString ''policy_specific'')
          \<or> member answer ''question_type'' = Some (JString ''general_insurance'')"
    using a by (simp add: is_question_type_def)
  then have "\<exists>t. member answer ''question_type'' = Some (JString (question_type_name t))"
    by (metis question_type_name.simps)
  then have "\<exists>!t. member answer ''question_type'' = Some (JString (question_type_name t))"
    by (auto simp: question_type_name_eq)
  with d show ?thesis by simp
qed

lemma askQuestion_returns:
  "(askQuestion shw base server request = Inr answer) =
     (\<exists>r. server (build_request base ''/questions/ask''
               (no_options\<lparr>init_method := Some ''POST'', init_body := Some request\<rparr>)) = Some r
          \<and> ok r \<and> json_body r = Some answer)"
  by (auto simp: askQuestion_def fetchApi_def split: option.splits)

text \<open>
  C2, as the claim states it, fails on what is returned: \<^verbatim>\<open>askQuestion\<close> does not
  check the body of the response, so an answer whose question type is "unknown" comes
  back as it was sent.
\<close>

theorem third_question_type_counterexample:
  "askQuestion show_int ''http://localhost:8000/api/v1''
      (answering \<lparr>status = 200, statusText = ''OK'', json_body = Some unknown_answer\<rparr>)
      sample_request
     = Inr unknown_answer
   \<and> member unknown_answer ''question_type'' = Some (JString ''unknown'')
   \<and> \<not> is_AnswerResponse unknown_answer"
  by (simp add: askQuestion_def fetchApi_def answering_def ok_def unknown_answer_def
      own_property_def is_string_def is_question_type_def)

text \<open>
  C2, amended. Every value of the declared type \<^verbatim>\<open>AnswerResponse\<close> has a question
  type that is "policy_specific" or "general_insurance": it names exactly one of the
  two classifications, and the type represents no third. \<^verbatim>\<open>askQuestion\<close> returns
  the parsed body of an ok response to its request as it is, without checking it
  against that type, so the answer it returns has one of the two classifications when
  the body the server sent has the declared type.
\<close>

theorem answer_question_type:
  "((askQuestion shw base server request = Inr answer) =
      (\<exists>r. server (build_request base ''/questions/ask''
                (no_options\<lparr>init_method := Some ''POST'', init_body := Some request\<rparr>)) = Some r
           \<and> ok r \<and> json_body r = Some answer))
   \<and> (is_AnswerResponse answer \<longrightarrow>
        (member answer ''question_type'' = Some (JString ''policy_specific'')
         \<or> member answer ''question_type'' = Some (JString ''general_insurance''))
        \<and> (\<exists>!t. member answer ''question_type'' = Some (JString (question_type_name t))))"
  using askQuestion_returns [of shw base server request answer]
    answer_type_question_type [of answer]
  by blast

lemma sample_answer_typed: "is_AnswerResponse sample_answer"
  by (simp add: sample_answer_def own_property_def is_string_def is_number_def
      is_optional_number_def is_array_of_def is_question_type_def)

theorem answer_question_type_witness:
  "askQuestion show_int ''http://localhost:8000/api/v1''
      (answering \<lparr>status = 200, statusText = ''OK'', json_body = Some sample_answer\<rparr>)
      sample_request
     = Inr sample_answer
   \<and> is_AnswerResponse sample_answer
   \<and> member sample_answer ''question_type'' = Some (JString (question_type_name policy_specific))"
proof -
  have "askQuestion show_int ''http://localhost:8000/api/v1''
      (answering \<lparr>status = 200, statusText = ''OK'', json_body = Some sample_answer\<rparr>)
      sample_request
     = Inr sample_answer"
    using answer_question_type [of show_int "''http://localhost:8000/api/v1''"
        "answering \<lparr>status = 200, statusText = ''OK'', json_body = Some sample_answer\<rparr>"
        sample_request sample_answer, THEN conjunct1]
    by (simp add: answering_def ok_def)
  moreover have "member sample_answer ''question_type''
      = Some (JString (question_type_name policy_specific))"
    by (simp add: sample_answer_def own_property_def)
  ultimately show ?thesis
    using sample_answer_typed by simp
qed

section \<open>Properties of the citations\<close>

lemma is_Citation_cite: "is_Citation (cite n (chunk, score))"
  by (simp add: cite_def own_property_def is_string_def is_number_def is_optional_number_def
      split: option.splits)

lemma cite_members:
  "member (cite n (chunk, score)) ''chunk_id'' = Some (JString (chunk_ident chunk))"
  "member (cite n (chunk, score)) ''page_number'' = map_option JNumber (chunk_page_number chunk)"
  "member (cite n (chunk, score)) ''text_snippet'' = Some (JString (take n (chunk_text chunk)))"
  "member (cite n (chunk, score)) ''relevance_score'' = Some (JNumber score)"
  by (simp_all add: cite_def own_property_def split: option.splits)

text \<open>
  C4. Every citation of a policy-path answer has the declared type \<^verbatim>\<open>Citation\<close>
  and records, for one of the retrieved chunks that reached the minimum relevance, the
  id of that chunk, its page number (absent where the chunk has none), a snippet from
  the start of its text and its relevance score.
\<close>

theorem citation_records_chunk:
  assumes "j \<in> set (policy_citations k min_relevance n retrieved)"
  shows "is_Citation j
       \<and> (\<exists>(chunk, score) \<in> set retrieved. min_relevance \<le> score
            \<and> member j ''chunk_id'' = Some (JString (chunk_ident chunk))
            \<and> member j ''page_number'' = map_option JNumber (chunk_page_number chunk)
            \<and> member j ''text_snippet'' = Some (JString (take n (chunk_text chunk)))
            \<and> length (take n (chunk_text chunk)) \<le> n
            \<and> member j ''relevance_score'' = Some (JNumber score))"
proof -
  from assms obtain chunk score where
    m: "(chunk, score) \<in> set (take k retrieved)" and s: "min_relevance \<le> score"
    and j: "j = cite n (chunk, score)"
    by (auto simp: policy_citations_def)
  from m have "(chunk, score) \<in> set retrieved" by (rule in_set_takeD)
  with s j show ?thesis
    by (auto simp: is_Citation_cite cite_members intro!: bexI [of _ "(chunk, score)"])
qed

theorem citation_records_chunk_witness:
  "policy_citations 5 5 26 sample_retrieved
     = [JObject [(''chunk_id'', JString ''c7''), (''page_number'', JNumber 4),
                 (''text_snippet'', JString ''Selbstbeteiligung: 500 EUR''),
                 (''relevance_score'', JNumber 9)]]
   \<and> is_Citation (JObject [(''chunk_id'', JString ''c7''), (''page_number'', JNumber (4::int)),
                 (''text_snippet'', JString ''Selbstbeteiligung: 500 EUR''),
                 (''relevance_score'', JNumber 9)])"
  using citation_records_chunk [of
      "JObject [(''chunk_id'', JString ''c7''), (''page_number'', JNumber 4),
                 (''text_snippet'', JString ''Selbstbeteiligung: 500 EUR''),
                 (''relevance_score'', JNumber 9)]" 5 5 26 sample_retrieved]
  by (simp add: policy_citations_def sample_retrieved_def cite_def own_property_def
      is_string_def is_number_def is_optional_number_def)

section \<open>Properties of the highlight selection\<close>

lemma length_dedupe: "length (dedupe near kept xs) \<le> length kept + length xs"
proof (induction xs arbitrary: kept)
  case Nil
  then show ?case by simp
next
  case (Cons x xs)
  show ?case
  proof (cases "list_ex (\<lambda>k. near k x) kept")
    case True
    with Cons.IH [of kept] show ?thesis by simp
  next
    case False
    with Cons.IH [of "x # kept"] show ?thesis by simp
  qed
qed

lemma length_map_filter: "length (List.map_filter f xs) \<le> length xs"
  by (simp add: List.map_filter_def)

lemma bounded_n_le: "bounded_n n \<le> 5"
  by (simp add: bounded_n_def)

text \<open>
  C5. For every document, the number of highlights the Norm Comparator produces is at
  most 5 (and, being a length, at least 0) and at most the number of chunks of the
  document.
\<close>

theorem highlight_count:
  "0 \<le> length (highlight_set (generate_highlights cmp chunks))
   \<and> length (highlight_set (generate_highlights cmp chunks)) \<le> 5
   \<and> length (highlight_set (generate_highlights cmp chunks)) \<le> length chunks"
proof -
  define scored where "scored = map (\<lambda>c. (c, nearest_norm cmp c)) chunks"
  define score where "score = (\<lambda>(c, m). deviation cmp c m)"
  define candidates where "candidates = filter (\<lambda>cm. min_deviation cmp < score cm) scored"
  define ranked where "ranked = rev (sort_key score (rev candidates))"
  define deduped where
    "deduped = dedupe (\<lambda>(c, m) (c', m'). near_identical cmp c c') [] ranked"
  define selected where "selected = take (bounded_n (top_n cmp)) deduped"
  have g: "highlight_set (generate_highlights cmp chunks)
      = List.map_filter (\<lambda>(c, m). explain cmp c m) selected"
    by (simp add: generate_highlights_def Let_def selected_def deduped_def ranked_def
        candidates_def score_def scored_def)
  have "length candidates \<le> length chunks"
    by (simp add: candidates_def scored_def order_trans [OF length_filter_le])
  moreover have "length ranked = length candidates"
    by (simp add: ranked_def)
  moreover have "length deduped \<le> length ranked"
    using length_dedupe [of _ "[]" ranked] by (simp add: deduped_def)
  moreover have "length selected \<le> length deduped" and "length selected \<le> 5"
    using bounded_n_le [of "top_n cmp"] by (simp_all add: selected_def)
  moreover have "length (highlight_set (generate_highlights cmp chunks)) \<le> length selected"
    by (simp add: g length_map_filter)
  ultimately show ?thesis by linarith
qed

theorem highlight_count_witness:
  "highlight_set (generate_highlights sample_comparator [1, 5, 7, 12, 30, 31, 45, 2, 60, 71])
     = [''71'', ''60'', ''45'', ''31'']
   \<and> length (highlight_set
        (generate_highlights sample_comparator [1, 5, 7, 12, 30, 31, 45, 2, 60, 71])) \<le> 5
   \<and> length (highlight_set (generate_highlights sample_comparator [7, 8]))
       \<le> length [7, 8 :: nat]"
  using highlight_count [of sample_comparator "[1, 5, 7, 12, 30, 31, 45, 2, 60, 71]"]
    highlight_count [of sample_comparator "[7, 8]"]
  by (simp add: generate_highlights_def sample_comparator_def Let_def bounded_n_def
      List.map_filter_simps show_nat.simps)

section \<open>Properties of the empty highlight set\<close>












section \<open>Properties of the question request\<close>

text \<open>
  C1, as the claim states it, fails on the interface: a request without a document id
  is not a \<^verbatim>\<open>QuestionRequest\<close>, whose \<^verbatim>\<open>policy_id\<close> is required, and the page
  drops a question that is asked while no policy is loaded.
\<close>

theorem request_without_policy_counterexample:
  "\<not> is_QuestionRequest
       (JObject [(''question'', JString ''Was ist meine Selbstbeteiligung?'')] :: int json)
   \<and> handleAskQuestion (None :: int PolicyOverview option) ''Was ist meine Selbstbeteiligung?''
       = []"
  by (simp add: own_property_def is_string_def handleAskQuestion_def)

text \<open>
  C1, amended. A question that reaches the router with no document id is classified
  \<open>general_insurance\<close>, whatever its text. The question-asking interface of the
  frontend does not admit such a request: every \<^verbatim>\<open>QuestionRequest\<close> carries a
  policy id, the page does nothing with a question asked while no policy is loaded,
  and with a policy loaded it sends no request either.
\<close>

theorem question_needs_policy:
  "route_question classify topics None question_text = general_insurance
   \<and> (is_QuestionRequest request \<longrightarrow> (\<exists>p. member request ''policy_id'' = Some (JString p)))
   \<and> handleAskQuestion None question_text = []
   \<and> (\<forall>e \<in> set (handleAskQuestion uploadedPolicy question_text). \<forall>v. e \<noteq> SendQuestion v)"
proof -
  have "is_QuestionRequest request \<longrightarrow> (\<exists>p. member request ''policy_id'' = Some (JString p))"
    by (cases request) (auto simp: is_string_def split: option.splits json.splits)
  then show ?thesis
    by (auto simp: route_question_def handleAskQuestion_def split: option.splits)
qed

theorem question_needs_policy_witness:
  "is_QuestionRequest sample_request
   \<and> member sample_request ''policy_id'' = Some (JString ''p1'')
   \<and> route_question sample_classify sample_topics None ''Was ist meine Selbstbeteiligung?''
       = general_insurance
   \<and> route_question sample_classify sample_topics (Some ''p1'')
        ''Was ist meine Selbstbeteiligung?''
       = policy_specific"
  using question_needs_policy [of sample_classify sample_topics
      "''Was ist meine Selbstbeteiligung?''" sample_request]
  by (simp add: sample_request_def own_property_def is_string_def route_question_def
      sample_classify_def sample_topics_def)

end
